theory Spec2Isabelle
  imports Main "HOL-Library.Multiset"
begin

section \<open>The probability simulator of simulation.py\<close>

text \<open>
  The class \<open>ProbabilitySimulator\<close> keeps one dictionary, \<open>self.results\<close>, and
  draws its randomness from two process-wide generators: numpy's (\<open>np.random\<close>,
  used by the coin, die and compound experiments) and the standard library's
  (\<open>random\<close>, used to shuffle the deck). Both generators are state of the run, so
  the model threads them through every operation beside \<open>results\<close>.
\<close>

subsection \<open>Errors and numbers\<close>

datatype py_error = ValueError | ZeroDivisionError | KeyError

text \<open>
  The value handed to a format specification such as \<open>:.2f\<close>. The rounding of
  floating point is not modelled: \<open>Quot a b\<close> stands for the float nearest to
  \<open>a / b\<close> (\<open>b \<noteq> 0\<close>); the other three are the IEEE specials.
\<close>

datatype pyfloat = Quot int int | NaN | PosInf | NegInf

text \<open>\<open>a / b\<close> on two Python ints raises on a zero divisor.\<close>

definition py_truediv :: "int \<Rightarrow> int \<Rightarrow> py_error + pyfloat" where
  "py_truediv a b = (if b = 0 then Inl ZeroDivisionError else Inr (Quot a b))"

text \<open>
  \<open>a / b\<close> on two numpy integer scalars never raises: a zero divisor gives
  \<open>nan\<close> or an infinity (and a RuntimeWarning, which is not an exception).
\<close>

definition np_truediv :: "int \<Rightarrow> int \<Rightarrow> pyfloat" where
  "np_truediv a b =
     (if b = 0 then (if a = 0 then NaN else if 0 < a then PosInf else NegInf)
      else Quot a b)"

subsection \<open>The random sources\<close>

text \<open>
  A generator is the infinite sequence of raw numbers it is still going to
  produce; drawing one number takes the head and leaves the rest. Seeding fixes
  the sequence. Every sequence of outcomes in range comes from some raw sequence,
  so nothing is assumed about the distribution.
\<close>

type_synonym rng = "nat \<Rightarrow> nat"

definition next_raw :: "rng \<Rightarrow> nat \<times> rng" where
  "next_raw g = (g 0, \<lambda>k. g (Suc k))"

text \<open>\<open>np.random.randint(low, high)\<close>: one integer of \<open>[low, high)\<close>. The source
  calls it with \<open>(0, 2)\<close> and \<open>(1, 7)\<close> only.\<close>

definition randint :: "int \<Rightarrow> int \<Rightarrow> rng \<Rightarrow> int \<times> rng" where
  "randint low high g =
     (case next_raw g of (r, g') \<Rightarrow> (low + int (r mod nat (high - low)), g'))"

fun randint_draws :: "int \<Rightarrow> int \<Rightarrow> nat \<Rightarrow> rng \<Rightarrow> int list \<times> rng" where
  "randint_draws low high 0 g = ([], g)"
| "randint_draws low high (Suc k) g =
     (case randint low high g of (x, g') \<Rightarrow>
        (case randint_draws low high k g' of (xs, g'') \<Rightarrow> (x # xs, g'')))"

text \<open>\<open>np.random.randint(low, high, size)\<close>: an array of \<open>size\<close> integers. Before
  it draws anything numpy refuses a negative size with
  \<open>ValueError: negative dimensions are not allowed\<close>, and a size that is not a
  signed 64-bit array dimension with \<open>ValueError: Maximum allowed dimension exceeded\<close>.
  Running out of memory below that bound is not modelled.\<close>

definition randint_size :: "int \<Rightarrow> int \<Rightarrow> int \<Rightarrow> rng \<Rightarrow> py_error + (int list \<times> rng)" where
  "randint_size low high sz g =
     (if sz < 0 then Inl ValueError
      else if 2 ^ 63 \<le> sz then Inl ValueError
      else Inr (randint_draws low high (nat sz) g))"

text \<open>\<open>random.shuffle(x)\<close> is the standard library's Fisher-Yates loop:
  \<^verbatim>\<open>for i in reversed(range(1, len(x))): j = randbelow(i + 1); x[i], x[j] = x[j], x[i]\<close>\<close>

definition randbelow :: "nat \<Rightarrow> rng \<Rightarrow> nat \<times> rng" where
  "randbelow n g = (case next_raw g of (r, g') \<Rightarrow> (r mod n, g'))"

fun shuffle_from :: "nat \<Rightarrow> 'a list \<Rightarrow> rng \<Rightarrow> 'a list \<times> rng" where
  "shuffle_from 0 x g = (x, g)"
| "shuffle_from (Suc i) x g =
     (case randbelow (Suc i + 1) g of (j, g') \<Rightarrow>
        shuffle_from i (x[Suc i := x ! j, j := x ! Suc i]) g')"

definition shuffle :: "'a list \<Rightarrow> rng \<Rightarrow> 'a list \<times> rng" where
  "shuffle x g = shuffle_from (length x - 1) x g"

subsection \<open>Python containers\<close>

text \<open>\<open>xs[:n]\<close>: a negative \<open>n\<close> counts from the end, and a bound outside the
  list is clipped, never an error.\<close>

definition slice_to :: "'a list \<Rightarrow> int \<Rightarrow> 'a list" where
  "slice_to xs n =
     (if n < 0 then take (nat (int (length xs) + n)) xs else take (nat n) xs)"

text \<open>\<open>collections.Counter(xs)\<close> and \<open>d.get(k, default)\<close>.\<close>

definition counter :: "int list \<Rightarrow> (int \<rightharpoonup> int)" where
  "counter xs =
     fold (\<lambda>x c. c(x \<mapsto> (case c x of None \<Rightarrow> 0 | Some n \<Rightarrow> n) + 1)) xs Map.empty"

definition dict_get :: "('k \<rightharpoonup> 'v) \<Rightarrow> 'k \<Rightarrow> 'v \<Rightarrow> 'v" where
  "dict_get d k dflt = (case d k of None \<Rightarrow> dflt | Some v \<Rightarrow> v)"

subsection \<open>Results and the session\<close>

text \<open>
  Each experiment stores a dictionary of its own shape. \<open>raw_data\<close> is a sequence
  of integers for three of them and a sequence of pairs for the compound events.
  The counts of \<open>CoinTosses\<close> are numpy scalars (they come from \<open>np.sum\<close>), those
  of the other three are Python ints; the difference shows only when they are
  divided.
\<close>

datatype result =
    CoinTosses (heads: int) (tails: int) (raw_data: "int list")
  | DieRolls (counts: "(int \<times> int) list") (raw_data: "int list")
  | CardDraws (red: int) (black: int) (raw_data: "int list")
  | CompoundEvents (both_heads: int) (at_least_one_head: int) (neither_head: int)
      (raw_pairs: "(int \<times> int) list")

record session =
  results :: "string \<rightharpoonup> result"
  np_random :: rng
  py_random :: rng

text \<open>\<open>__init__\<close>: an empty dictionary; the two seeds come from outside.\<close>

definition init :: "rng \<Rightarrow> rng \<Rightarrow> session" where
  "init g h = \<lparr>results = Map.empty, np_random = g, py_random = h\<rparr>"

subsection \<open>The four experiments\<close>

definition simulate_coin_tosses :: "session \<Rightarrow> int \<Rightarrow> py_error + (result \<times> session)" where
  "simulate_coin_tosses s num_tosses =
     (case randint_size 0 2 num_tosses (np_random s) of
        Inl e \<Rightarrow> Inl e
      | Inr (tosses, g') \<Rightarrow>
          (let heads_count = sum_list tosses;
               tails_count = num_tosses - heads_count;
               r = CoinTosses heads_count tails_count tosses
           in Inr (r, s\<lparr>results := (results s)(''coin_tosses'' \<mapsto> r), np_random := g'\<rparr>)))"

definition simulate_die_rolls :: "session \<Rightarrow> int \<Rightarrow> py_error + (result \<times> session)" where
  "simulate_die_rolls s num_rolls =
     (case randint_size 1 7 num_rolls (np_random s) of
        Inl e \<Rightarrow> Inl e
      | Inr (rolls, g') \<Rightarrow>
          (let face_counts = counter rolls;
               res = map (\<lambda>face. (face, dict_get face_counts face 0)) [1..6];
               r = DieRolls res rolls
           in Inr (r, s\<lparr>results := (results s)(''die_rolls'' \<mapsto> r), np_random := g'\<rparr>)))"

definition simulate_card_draws :: "session \<Rightarrow> int \<Rightarrow> py_error + (result \<times> session)" where
  "simulate_card_draws s num_draws =
     (case shuffle [1..52] (py_random s) of (deck, h') \<Rightarrow>
        (let draws = slice_to deck num_draws;
             red_count = sum_list (map (\<lambda>card. 1) (filter (\<lambda>card. card \<le> 26) draws));
             black_count = num_draws - red_count;
             r = CardDraws red_count black_count draws
         in Inr (r, s\<lparr>results := (results s)(''card_draws'' \<mapsto> r), py_random := h'\<rparr>)))"

text \<open>The loop \<open>for _ in range(num_trials)\<close>, with the remaining number of rounds
  as its counter; \<open>range\<close> of a negative number is empty.\<close>

fun compound_loop ::
  "nat \<Rightarrow> int \<Rightarrow> int \<Rightarrow> (int \<times> int) list \<Rightarrow> rng \<Rightarrow> int \<times> int \<times> (int \<times> int) list \<times> rng" where
  "compound_loop 0 both alo raw g = (both, alo, raw, g)"
| "compound_loop (Suc k) both alo raw g =
     (case randint 0 2 g of (flip1, g1) \<Rightarrow>
        (case randint 0 2 g1 of (flip2, g2) \<Rightarrow>
           (let raw' = raw @ [(flip1, flip2)];
                both' = (if flip1 = 1 \<and> flip2 = 1 then both + 1 else both);
                alo' = (if flip1 = 1 \<or> flip2 = 1 then alo + 1 else alo)
            in compound_loop k both' alo' raw' g2)))"

definition simulate_compound_events :: "session \<Rightarrow> int \<Rightarrow> py_error + (result \<times> session)" where
  "simulate_compound_events s num_trials =
     (case compound_loop (nat num_trials) 0 0 [] (np_random s) of
        (both, alo, raw, g') \<Rightarrow>
          (let r = CompoundEvents both alo (num_trials - alo) raw
           in Inr (r, s\<lparr>results := (results s)(''compound_events'' \<mapsto> r), np_random := g'\<rparr>)))"

subsection \<open>Presentation\<close>

text \<open>
  A plot operation either prints one line and returns, or hands the renderer the
  bar heights and the numbers of the caption. The renderer itself is outside the
  model. A stored entry without the expected fields is a \<open>KeyError\<close>.
\<close>

datatype plot_outcome = Printed string | Shown "int list list" "pyfloat list"

definition plot_coin_tosses :: "session \<Rightarrow> py_error + plot_outcome" where
  "plot_coin_tosses s =
     (case results s ''coin_tosses'' of
        None \<Rightarrow> Inr (Printed ''No coin toss simulation has been run yet.'')
      | Some (CoinTosses h t raw) \<Rightarrow>
          (let cnts = [h, t]; total = sum_list cnts
           in Inr (Shown [cnts] [np_truediv h total]))
      | Some _ \<Rightarrow> Inl KeyError)"

definition plot_die_rolls :: "session \<Rightarrow> py_error + plot_outcome" where
  "plot_die_rolls s =
     (case results s ''die_rolls'' of
        None \<Rightarrow> Inr (Printed ''No die roll simulation has been run yet.'')
      | Some (DieRolls res raw) \<Rightarrow>
          (let faces = map fst res; cnts = map snd res; total = sum_list cnts
           in (case py_truediv total 6 of
                 Inl e \<Rightarrow> Inl e
               | Inr expected \<Rightarrow> Inr (Shown [faces, cnts] [expected])))
      | Some _ \<Rightarrow> Inl KeyError)"

definition plot_card_draws :: "session \<Rightarrow> py_error + plot_outcome" where
  "plot_card_draws s =
     (case results s ''card_draws'' of
        None \<Rightarrow> Inr (Printed ''No card draw simulation has been run yet.'')
      | Some (CardDraws r b raw) \<Rightarrow>
          (let cnts = [r, b]; total = sum_list cnts
           in (case py_truediv r total of
                 Inl e \<Rightarrow> Inl e
               | Inr p \<Rightarrow> Inr (Shown [cnts] [p])))
      | Some _ \<Rightarrow> Inl KeyError)"

definition plot_compound_events :: "session \<Rightarrow> py_error + plot_outcome" where
  "plot_compound_events s =
     (case results s ''compound_events'' of
        None \<Rightarrow> Inr (Printed ''No compound event simulation has been run yet.'')
      | Some (CompoundEvents both alo neither raw) \<Rightarrow>
          (let counts1 = [both, alo - both + neither];
               counts2 = [alo, neither];
               total = sum_list counts1
           in (case py_truediv both total of
                 Inl e \<Rightarrow> Inl e
               | Inr p1 \<Rightarrow>
                   (case py_truediv alo total of
                      Inl e \<Rightarrow> Inl e
                    | Inr p2 \<Rightarrow> Inr (Shown [counts1, counts2] [p1, p2]))))
      | Some _ \<Rightarrow> Inl KeyError)"

section \<open>Properties of the random sources and the containers\<close>

lemma randint_range:
  assumes "low < high" and "randint low high g = (x, g')"
  shows "low \<le> x \<and> x < high"
proof -
  have pos: "0 < nat (high - low)" using assms(1) by simp
  have "g 0 mod nat (high - low) < nat (high - low)" using pos by (rule mod_less_divisor)
  then have "int (g 0 mod nat (high - low)) < high - low" using assms(1) by linarith
  moreover have "x = low + int (g 0 mod nat (high - low))"
    using assms(2) by (simp add: randint_def next_raw_def)
  ultimately show ?thesis by simp
qed







lemma shuffle_from_mset:
  "i < length x \<Longrightarrow> shuffle_from i x g = (y, g') \<Longrightarrow> mset y = mset x"
proof (induction i arbitrary: x g)
  case 0
  then show ?case by simp
next
  case (Suc i)
  obtain j g1 where r: "randbelow (Suc i + 1) g = (j, g1)" by (cases "randbelow (Suc i + 1) g")
  then have "j < Suc i + 1" by (auto simp: randbelow_def next_raw_def)
  with Suc.prems(1) have jl: "j < length x" by simp
  let ?z = "x[Suc i := x ! j, j := x ! Suc i]"
  have z: "mset ?z = mset x" using mset_swap [OF jl Suc.prems(1)] by simp
  have "i < length ?z" using Suc.prems(1) by simp
  moreover have "shuffle_from i ?z g1 = (y, g')" using Suc.prems(2) r by simp
  ultimately have "mset y = mset ?z" by (rule Suc.IH)
  with z show ?case by simp
qed

lemma shuffle_mset: "shuffle x g = (y, g') \<Longrightarrow> mset y = mset x"
  by (cases x) (auto simp: shuffle_def dest: shuffle_from_mset [rotated])

lemma deck_facts:
  assumes "mset deck = mset [1..52::int]"
  shows "length deck = 52" and "distinct deck" and "set deck = {1..52}"
    and "length (filter (\<lambda>card. card \<le> 26) deck) = 26"
proof -
  show "length deck = 52" using mset_eq_length [OF assms] by simp
  have "distinct [1..52::int]" by simp
  then show "distinct deck" using assms by (metis mset_eq_imp_distinct_iff)
  show "set deck = {1..52}" using mset_eq_setD [OF assms] by simp
  have "filter_mset (\<lambda>card. card \<le> 26) (mset deck) =
          filter_mset (\<lambda>card. card \<le> 26) (mset [1..52::int])"
    by (simp only: assms)
  then have "mset (filter (\<lambda>card. card \<le> 26) deck) =
          mset (filter (\<lambda>card. card \<le> 26) [1..52::int])"
    by (simp only: mset_filter)
  then have "length (filter (\<lambda>card. card \<le> 26) deck) = length (filter (\<lambda>card. card \<le> 26) [1..52::int])"
    by (rule mset_eq_length)
  also have "\<dots> = 26" by code_simp
  finally show "length (filter (\<lambda>card. card \<le> 26) deck) = 26" .
qed

lemma sum_list_ones: "sum_list (map (\<lambda>card. 1::int) xs) = int (length xs)"
  by (induction xs) auto

lemma compound_loop_inv:
  assumes "compound_loop k both alo raw g = (both', alo', raw', g')"
    and "both = int (length (filter (\<lambda>(a, b). a = 1 \<and> b = 1) raw))"
    and "alo = int (length (filter (\<lambda>(a, b). a = 1 \<or> b = 1) raw))"
    and "list_all (\<lambda>(a, b). (a = 0 \<or> a = 1) \<and> (b = 0 \<or> b = 1)) raw"
  shows "both' = int (length (filter (\<lambda>(a, b). a = 1 \<and> b = 1) raw')) \<and>
         alo' = int (length (filter (\<lambda>(a, b). a = 1 \<or> b = 1) raw')) \<and>
         list_all (\<lambda>(a, b). (a = 0 \<or> a = 1) \<and> (b = 0 \<or> b = 1)) raw' \<and>
         length raw' = length raw + k"
  using assms
proof (induction k arbitrary: both alo raw g)
  case 0
  from "0.prems"(1) have "both' = both" and "alo' = alo" and "raw' = raw" by simp_all
  with "0.prems"(2,3,4) show ?case by simp
next
  case (Suc k)
  obtain f1 g1 where r1: "randint 0 2 g = (f1, g1)" by (cases "randint 0 2 g")
  obtain f2 g2 where r2: "randint 0 2 g1 = (f2, g2)" by (cases "randint 0 2 g1")
  have b1: "f1 = 0 \<or> f1 = 1" using randint_range [OF _ r1] by auto
  have b2: "f2 = 0 \<or> f2 = 1" using randint_range [OF _ r2] by auto
  let ?raw = "raw @ [(f1, f2)]"
  let ?both = "if f1 = 1 \<and> f2 = 1 then both + 1 else both"
  let ?alo = "if f1 = 1 \<or> f2 = 1 then alo + 1 else alo"
  have step: "compound_loop k ?both ?alo ?raw g2 = (both', alo', raw', g')"
    using Suc.prems(1) r1 r2 by (simp add: Let_def)
  have i1: "?both = int (length (filter (\<lambda>(a, b). a = 1 \<and> b = 1) ?raw))"
    using Suc.prems(2) by simp
  have i2: "?alo = int (length (filter (\<lambda>(a, b). a = 1 \<or> b = 1) ?raw))"
    using Suc.prems(3) by simp
  have i3: "list_all (\<lambda>(a, b). (a = 0 \<or> a = 1) \<and> (b = 0 \<or> b = 1)) ?raw"
    using Suc.prems(4) b1 b2 by simp
  from Suc.IH [OF step i1 i2 i3] show ?case by simp
qed

lemma filter_both_le:
  "length (filter (\<lambda>(a, b). a = (1::int) \<and> b = (1::int)) xs) \<le> length (filter (\<lambda>(a, b). a = 1 \<or> b = 1) xs)"
  by (induction xs) auto

section \<open>The experiments\<close>

subsection \<open>Coin tosses\<close>




subsection \<open>Die rolls\<close>




subsection \<open>Card draws\<close>

text \<open>
  Claim C5. For every \<open>num_draws\<close> from 0 to 52, \<open>simulate_card_draws\<close> returns a
  result with \<open>red + black = num_draws\<close>, which is also the number of raw entries;
  the raw entries are pairwise distinct cards between 1 and 52, the first
  \<open>num_draws\<close> cards of a permutation of the deck, and \<open>red\<close> is the number of raw
  entries between 1 and 26.
\<close>

theorem simulate_card_draws_counts:
  assumes "0 \<le> num_draws" and "num_draws \<le> 52"
  shows "\<exists>rd bl draws deck s'.
           simulate_card_draws s num_draws = Inr (CardDraws rd bl draws, s') \<and>
           rd + bl = num_draws \<and> int (length draws) = num_draws \<and>
           distinct draws \<and> list_all (\<lambda>card. 1 \<le> card \<and> card \<le> 52) draws \<and>
           mset deck = mset [1..52] \<and> draws = take (nat num_draws) deck \<and>
           rd = int (length (filter (\<lambda>card. 1 \<le> card \<and> card \<le> 26) draws))"
proof -
  obtain deck h' where sh: "shuffle [1..52] (py_random s) = (deck, h')"
    by (cases "shuffle [1..52::int] (py_random s)")
  have perm: "mset deck = mset [1..52]" using shuffle_mset [OF sh] .
  let ?draws = "take (nat num_draws) deck"
  let ?red = "int (length (filter (\<lambda>card. card \<le> 26) ?draws))"
  have sl: "slice_to deck num_draws = ?draws" using assms(1) by (simp add: slice_to_def)
  have len: "int (length ?draws) = num_draws"
    using deck_facts(1) [OF perm] assms by simp
  have dist: "distinct ?draws" using deck_facts(2) [OF perm] by simp
  have "set ?draws \<subseteq> {1..52}" using deck_facts(3) [OF perm] set_take_subset [of "nat num_draws" deck] by simp
  then have inr: "list_all (\<lambda>card. 1 \<le> card \<and> card \<le> 52) ?draws"
    by (auto simp: list_all_iff)
  then have red: "filter (\<lambda>card. 1 \<le> card \<and> card \<le> 26) ?draws = filter (\<lambda>card. card \<le> 26) ?draws"
    by (auto simp: list_all_iff intro: filter_cong)
  have "simulate_card_draws s num_draws =
          Inr (CardDraws ?red (num_draws - ?red) ?draws,
               s\<lparr>results := (results s)(''card_draws'' \<mapsto> CardDraws ?red (num_draws - ?red) ?draws),
                 py_random := h'\<rparr>)"
    using sh sl by (simp add: simulate_card_draws_def Let_def sum_list_ones)
  moreover have "?red + (num_draws - ?red) = num_draws" by simp
  ultimately show ?thesis using len dist inr perm red by (metis (lifting))
qed

theorem simulate_card_draws_counts_witness:
  "\<exists>rd bl draws deck s'.
     simulate_card_draws (init id id) 5 = Inr (CardDraws rd bl draws, s') \<and>
     rd + bl = 5 \<and> int (length draws) = 5 \<and>
     distinct draws \<and> list_all (\<lambda>card. 1 \<le> card \<and> card \<le> 52) draws \<and>
     mset deck = mset [1..52] \<and> draws = take (nat 5) deck \<and>
     rd = int (length (filter (\<lambda>card. 1 \<le> card \<and> card \<le> 26) draws))"
  using simulate_card_draws_counts [of 5 "init id id"] by simp

text \<open>
  Claim C10. For every \<open>num_draws\<close> above 52, \<open>simulate_card_draws\<close> returns without
  an error: the raw data is the whole shuffled deck, 52 cards, of which 26 are at
  most 26, so \<open>red = 26\<close> and \<open>black = num_draws - 26\<close>; the two add up to
  \<open>num_draws\<close> but not to the number of cards drawn.
\<close>

theorem simulate_card_draws_beyond_deck:
  assumes "52 < num_draws"
  shows "\<exists>draws s'.
           simulate_card_draws s num_draws = Inr (CardDraws 26 (num_draws - 26) draws, s') \<and>
           mset draws = mset [1..52] \<and> length draws = 52 \<and>
           int (length (filter (\<lambda>card. card \<le> 26) draws)) = 26 \<and>
           26 + (num_draws - 26) = num_draws \<and>
           26 + (num_draws - 26) \<noteq> int (length draws)"
proof -
  obtain deck h' where sh: "shuffle [1..52] (py_random s) = (deck, h')"
    by (cases "shuffle [1..52::int] (py_random s)")
  have perm: "mset deck = mset [1..52]" using shuffle_mset [OF sh] .
  have len: "length deck = 52" using deck_facts(1) [OF perm] .
  have red: "length (filter (\<lambda>card. card \<le> 26) deck) = 26" using deck_facts(4) [OF perm] .
  have sl: "slice_to deck num_draws = deck" using assms len by (simp add: slice_to_def)
  have "simulate_card_draws s num_draws =
          Inr (CardDraws 26 (num_draws - 26) deck,
               s\<lparr>results := (results s)(''card_draws'' \<mapsto> CardDraws 26 (num_draws - 26) deck),
                 py_random := h'\<rparr>)"
    using sh sl red by (simp add: simulate_card_draws_def Let_def sum_list_ones)
  then show ?thesis using perm len red assms by auto
qed

theorem simulate_card_draws_beyond_deck_witness:
  "\<exists>draws s'.
     simulate_card_draws (init id id) 53 = Inr (CardDraws 26 27 draws, s') \<and>
     mset draws = mset [1..52] \<and> length draws = 52"
  using simulate_card_draws_beyond_deck [of 53 "init id id"] by fastforce

subsection \<open>Compound events\<close>

text \<open>
  Claim C6. For every \<open>num_trials \<ge> 0\<close>, \<open>simulate_compound_events\<close> returns a
  result with \<open>both_heads \<le> at_least_one_head\<close> and
  \<open>at_least_one_head + neither_head = num_trials\<close>, which is also the number of raw
  pairs; \<open>both_heads\<close> is the number of pairs with two ones, \<open>at_least_one_head\<close> the
  number of pairs with a one, and \<open>neither_head\<close> is \<open>num_trials - at_least_one_head\<close>,
  taken after the loop, which carries no counter for it.
\<close>

theorem simulate_compound_events_counts:
  assumes "0 \<le> num_trials"
  shows "\<exists>both alo neither raw s'.
           simulate_compound_events s num_trials = Inr (CompoundEvents both alo neither raw, s') \<and>
           both \<le> alo \<and> alo + neither = num_trials \<and> int (length raw) = num_trials \<and>
           both = int (length (filter (\<lambda>(flip1, flip2). flip1 = 1 \<and> flip2 = 1) raw)) \<and>
           alo = int (length (filter (\<lambda>(flip1, flip2). flip1 = 1 \<or> flip2 = 1) raw)) \<and>
           neither = num_trials - alo"
proof -
  obtain both alo raw g' where
    loop: "compound_loop (nat num_trials) 0 0 [] (np_random s) = (both, alo, raw, g')"
    by (cases "compound_loop (nat num_trials) 0 0 [] (np_random s)")
  have inv: "both = int (length (filter (\<lambda>(a, b). a = 1 \<and> b = 1) raw)) \<and>
             alo = int (length (filter (\<lambda>(a, b). a = 1 \<or> b = 1) raw)) \<and>
             list_all (\<lambda>(a, b). (a = 0 \<or> a = 1) \<and> (b = 0 \<or> b = 1)) raw \<and>
             length raw = length ([] :: (int \<times> int) list) + nat num_trials"
    by (rule compound_loop_inv [OF loop]) simp_all
  then have b: "both = int (length (filter (\<lambda>(a, b). a = 1 \<and> b = 1) raw))"
    and a: "alo = int (length (filter (\<lambda>(a, b). a = 1 \<or> b = 1) raw))"
    and len: "int (length raw) = num_trials"
    using assms by simp_all
  have le: "both \<le> alo" using b a filter_both_le [of raw] by simp
  have run: "simulate_compound_events s num_trials =
          Inr (CompoundEvents both alo (num_trials - alo) raw,
               s\<lparr>results := (results s)(''compound_events'' \<mapsto>
                    CompoundEvents both alo (num_trials - alo) raw),
                 np_random := g'\<rparr>)"
    using loop by (simp add: simulate_compound_events_def Let_def)
  have tot: "alo + (num_trials - alo) = num_trials" by simp
  show ?thesis
    by (rule exI [of _ both], rule exI [of _ alo], rule exI [of _ "num_trials - alo"],
        rule exI [of _ raw], rule exI, intro conjI)
       (fact run le tot len b a refl)+
qed

theorem simulate_compound_events_counts_witness:
  "\<exists>both alo neither raw s'.
     simulate_compound_events (init id id) 2 = Inr (CompoundEvents both alo neither raw, s') \<and>
     both \<le> alo \<and> alo + neither = 2 \<and> int (length raw) = 2 \<and>
     both = int (length (filter (\<lambda>(flip1, flip2). flip1 = 1 \<and> flip2 = 1) raw)) \<and>
     alo = int (length (filter (\<lambda>(flip1, flip2). flip1 = 1 \<or> flip2 = 1) raw)) \<and>
     neither = 2 - alo"
  using simulate_compound_events_counts [of 2 "init id id"] by simp

section \<open>The session\<close>

lemma simulate_coin_tosses_store:
  "simulate_coin_tosses s n = Inr (r, s') \<Longrightarrow> results s' = (results s)(''coin_tosses'' \<mapsto> r)"
  by (auto simp: simulate_coin_tosses_def Let_def split: sum.splits prod.splits)

lemma simulate_die_rolls_store:
  "simulate_die_rolls s n = Inr (r, s') \<Longrightarrow> results s' = (results s)(''die_rolls'' \<mapsto> r)"
  by (auto simp: simulate_die_rolls_def Let_def split: sum.splits prod.splits)

lemma simulate_card_draws_store:
  "simulate_card_draws s n = Inr (r, s') \<Longrightarrow> results s' = (results s)(''card_draws'' \<mapsto> r)"
  by (auto simp: simulate_card_draws_def Let_def split: prod.splits)

lemma simulate_compound_events_store:
  "simulate_compound_events s n = Inr (r, s') \<Longrightarrow>
     results s' = (results s)(''compound_events'' \<mapsto> r)"
  by (auto simp: simulate_compound_events_def Let_def split: prod.splits)

lemma simulate_coin_tosses_returns:
  "0 \<le> n \<Longrightarrow> n < 2 ^ 63 \<Longrightarrow> \<exists>r s'. simulate_coin_tosses s n = Inr (r, s')"
  by (simp add: simulate_coin_tosses_def randint_size_def Let_def split: prod.splits)

lemma simulate_die_rolls_returns:
  "0 \<le> n \<Longrightarrow> n < 2 ^ 63 \<Longrightarrow> \<exists>r s'. simulate_die_rolls s n = Inr (r, s')"
  by (simp add: simulate_die_rolls_def randint_size_def Let_def split: prod.splits)

lemma simulate_card_draws_returns: "\<exists>r s'. simulate_card_draws s n = Inr (r, s')"
  by (simp add: simulate_card_draws_def Let_def split: prod.splits)

lemma simulate_compound_events_returns: "\<exists>r s'. simulate_compound_events s n = Inr (r, s')"
  by (simp add: simulate_compound_events_def Let_def split: prod.splits)

text \<open>
  Claim C8. An experiment that returns has inserted or replaced the entry under
  its own key and nothing else: the stored dictionary is the old one updated at that
  key, so the entries of the other three experiments are as before. Running the
  same experiment twice, with any two trial counts, leaves the second result under
  the key and no trace of the first.
\<close>

theorem experiment_replaces_own_entry:
  "(simulate_coin_tosses s n = Inr (r, s') \<longrightarrow>
      results s' = (results s)(''coin_tosses'' \<mapsto> r)) \<and>
   (simulate_die_rolls s n = Inr (r, s') \<longrightarrow>
      results s' = (results s)(''die_rolls'' \<mapsto> r)) \<and>
   (simulate_card_draws s n = Inr (r, s') \<longrightarrow>
      results s' = (results s)(''card_draws'' \<mapsto> r)) \<and>
   (simulate_compound_events s n = Inr (r, s') \<longrightarrow>
      results s' = (results s)(''compound_events'' \<mapsto> r)) \<and>
   (simulate_coin_tosses s n = Inr (r, s') \<and> simulate_coin_tosses s' m = Inr (r2, s2) \<longrightarrow>
      results s2 = (results s)(''coin_tosses'' \<mapsto> r2)) \<and>
   (simulate_die_rolls s n = Inr (r, s') \<and> simulate_die_rolls s' m = Inr (r2, s2) \<longrightarrow>
      results s2 = (results s)(''die_rolls'' \<mapsto> r2)) \<and>
   (simulate_card_draws s n = Inr (r, s') \<and> simulate_card_draws s' m = Inr (r2, s2) \<longrightarrow>
      results s2 = (results s)(''card_draws'' \<mapsto> r2)) \<and>
   (simulate_compound_events s n = Inr (r, s') \<and> simulate_compound_events s' m = Inr (r2, s2) \<longrightarrow>
      results s2 = (results s)(''compound_events'' \<mapsto> r2))"
proof (intro conjI impI)
  show "simulate_coin_tosses s n = Inr (r, s') \<Longrightarrow>
          results s' = (results s)(''coin_tosses'' \<mapsto> r)"
    by (rule simulate_coin_tosses_store)
  show "simulate_die_rolls s n = Inr (r, s') \<Longrightarrow>
          results s' = (results s)(''die_rolls'' \<mapsto> r)"
    by (rule simulate_die_rolls_store)
  show "simulate_card_draws s n = Inr (r, s') \<Longrightarrow>
          results s' = (results s)(''card_draws'' \<mapsto> r)"
    by (rule simulate_card_draws_store)
  show "simulate_compound_events s n = Inr (r, s') \<Longrightarrow>
          results s' = (results s)(''compound_events'' \<mapsto> r)"
    by (rule simulate_compound_events_store)
  show "simulate_coin_tosses s n = Inr (r, s') \<and> simulate_coin_tosses s' m = Inr (r2, s2) \<Longrightarrow>
          results s2 = (results s)(''coin_tosses'' \<mapsto> r2)"
    by (auto dest!: simulate_coin_tosses_store)
  show "simulate_die_rolls s n = Inr (r, s') \<and> simulate_die_rolls s' m = Inr (r2, s2) \<Longrightarrow>
          results s2 = (results s)(''die_rolls'' \<mapsto> r2)"
    by (auto dest!: simulate_die_rolls_store)
  show "simulate_card_draws s n = Inr (r, s') \<and> simulate_card_draws s' m = Inr (r2, s2) \<Longrightarrow>
          results s2 = (results s)(''card_draws'' \<mapsto> r2)"
    by (auto dest!: simulate_card_draws_store)
  show "simulate_compound_events s n = Inr (r, s') \<and>
        simulate_compound_events s' m = Inr (r2, s2) \<Longrightarrow>
          results s2 = (results s)(''compound_events'' \<mapsto> r2)"
    by (auto dest!: simulate_compound_events_store)
qed

theorem experiment_replaces_own_entry_witness:
  "\<exists>a sa a2 sa2 b sb b2 sb2 c sc c2 sc2 d sd d2 sd2.
     simulate_coin_tosses (init id id) 3 = Inr (a, sa) \<and>
     simulate_coin_tosses sa 1 = Inr (a2, sa2) \<and>
     results sa = [''coin_tosses'' \<mapsto> a] \<and> results sa2 = [''coin_tosses'' \<mapsto> a2] \<and>
     simulate_die_rolls (init id id) 3 = Inr (b, sb) \<and>
     simulate_die_rolls sb 1 = Inr (b2, sb2) \<and>
     results sb = [''die_rolls'' \<mapsto> b] \<and> results sb2 = [''die_rolls'' \<mapsto> b2] \<and>
     simulate_card_draws (init id id) 3 = Inr (c, sc) \<and>
     simulate_card_draws sc 1 = Inr (c2, sc2) \<and>
     results sc = [''card_draws'' \<mapsto> c] \<and> results sc2 = [''card_draws'' \<mapsto> c2] \<and>
     simulate_compound_events (init id id) 3 = Inr (d, sd) \<and>
     simulate_compound_events sd 1 = Inr (d2, sd2) \<and>
     results sd = [''compound_events'' \<mapsto> d] \<and>
     results sd2 = [''compound_events'' \<mapsto> d2]"
proof -
  have e: "results (init id id) = Map.empty" by (simp add: init_def)
  obtain a sa where a: "simulate_coin_tosses (init id id) 3 = Inr (a, sa)"
    using simulate_coin_tosses_returns [of 3 "init id id"] by auto
  obtain a2 sa2 where a2: "simulate_coin_tosses sa 1 = Inr (a2, sa2)"
    using simulate_coin_tosses_returns [of 1 sa] by auto
  obtain b sb where b: "simulate_die_rolls (init id id) 3 = Inr (b, sb)"
    using simulate_die_rolls_returns [of 3 "init id id"] by auto
  obtain b2 sb2 where b2: "simulate_die_rolls sb 1 = Inr (b2, sb2)"
    using simulate_die_rolls_returns [of 1 sb] by auto
  obtain c sc where c: "simulate_card_draws (init id id) 3 = Inr (c, sc)"
    using simulate_card_draws_returns by blast
  obtain c2 sc2 where c2: "simulate_card_draws sc 1 = Inr (c2, sc2)"
    using simulate_card_draws_returns by blast
  obtain d sd where d: "simulate_compound_events (init id id) 3 = Inr (d, sd)"
    using simulate_compound_events_returns by blast
  obtain d2 sd2 where d2: "simulate_compound_events sd 1 = Inr (d2, sd2)"
    using simulate_compound_events_returns by blast
  have "results sa = [''coin_tosses'' \<mapsto> a] \<and> results sa2 = [''coin_tosses'' \<mapsto> a2]"
    using experiment_replaces_own_entry [of "init id id" 3 a sa 1 a2 sa2] a a2 e by simp
  moreover
  have "results sb = [''die_rolls'' \<mapsto> b] \<and> results sb2 = [''die_rolls'' \<mapsto> b2]"
    using experiment_replaces_own_entry [of "init id id" 3 b sb 1 b2 sb2] b b2 e by simp
  moreover
  have "results sc = [''card_draws'' \<mapsto> c] \<and> results sc2 = [''card_draws'' \<mapsto> c2]"
    using experiment_replaces_own_entry [of "init id id" 3 c sc 1 c2 sc2] c c2 e by simp
  moreover
  have "results sd = [''compound_events'' \<mapsto> d] \<and> results sd2 = [''compound_events'' \<mapsto> d2]"
    using experiment_replaces_own_entry [of "init id id" 3 d sd 1 d2 sd2] d d2 e by simp
  ultimately show ?thesis using a a2 b b2 c c2 d d2 by blast
qed

text \<open>
  Claim C9. Two runs of an experiment with the same trial count, from sessions
  whose two random sources are in the same state, give the same outcome: the same
  error, or the same result (raw data and counts) and the same random sources
  afterwards. What the sessions have stored does not matter.
\<close>

theorem same_random_source_same_result:
  assumes "np_random s1 = np_random s2" and "py_random s1 = py_random s2"
  shows "map_sum id (\<lambda>(r, s'). (r, np_random s', py_random s')) (simulate_coin_tosses s1 n) =
         map_sum id (\<lambda>(r, s'). (r, np_random s', py_random s')) (simulate_coin_tosses s2 n) \<and>
         map_sum id (\<lambda>(r, s'). (r, np_random s', py_random s')) (simulate_die_rolls s1 n) =
         map_sum id (\<lambda>(r, s'). (r, np_random s', py_random s')) (simulate_die_rolls s2 n) \<and>
         map_sum id (\<lambda>(r, s'). (r, np_random s', py_random s')) (simulate_card_draws s1 n) =
         map_sum id (\<lambda>(r, s'). (r, np_random s', py_random s')) (simulate_card_draws s2 n) \<and>
         map_sum id (\<lambda>(r, s'). (r, np_random s', py_random s')) (simulate_compound_events s1 n) =
         map_sum id (\<lambda>(r, s'). (r, np_random s', py_random s')) (simulate_compound_events s2 n)"
proof (intro conjI)
  show "map_sum id (\<lambda>(r, s'). (r, np_random s', py_random s')) (simulate_coin_tosses s1 n) =
        map_sum id (\<lambda>(r, s'). (r, np_random s', py_random s')) (simulate_coin_tosses s2 n)"
    using assms by (simp add: simulate_coin_tosses_def Let_def split: sum.splits prod.splits)
  show "map_sum id (\<lambda>(r, s'). (r, np_random s', py_random s')) (simulate_die_rolls s1 n) =
        map_sum id (\<lambda>(r, s'). (r, np_random s', py_random s')) (simulate_die_rolls s2 n)"
    using assms by (simp add: simulate_die_rolls_def Let_def split: sum.splits prod.splits)
  show "map_sum id (\<lambda>(r, s'). (r, np_random s', py_random s')) (simulate_card_draws s1 n) =
        map_sum id (\<lambda>(r, s'). (r, np_random s', py_random s')) (simulate_card_draws s2 n)"
    using assms by (simp add: simulate_card_draws_def Let_def split: prod.splits)
  show "map_sum id (\<lambda>(r, s'). (r, np_random s', py_random s')) (simulate_compound_events s1 n) =
        map_sum id (\<lambda>(r, s'). (r, np_random s', py_random s')) (simulate_compound_events s2 n)"
    using assms by (simp add: simulate_compound_events_def Let_def split: prod.splits)
qed

theorem same_random_source_same_result_witness:
  "map_sum id (\<lambda>(r, s'). (r, np_random s', py_random s')) (simulate_coin_tosses (init id id) 3) =
   map_sum id (\<lambda>(r, s'). (r, np_random s', py_random s'))
     (simulate_coin_tosses ((init id id)\<lparr>results := [''die_rolls'' \<mapsto> DieRolls [] []]\<rparr>) 3)"
  using same_random_source_same_result
    [of "init id id" "(init id id)\<lparr>results := [''die_rolls'' \<mapsto> DieRolls [] []]\<rparr>" 3]
  by simp

text \<open>
  Claim C1, as amended. A negative trial count is rejected by
  \<open>simulate_coin_tosses\<close> and \<open>simulate_die_rolls\<close> with a \<open>ValueError\<close>, raised by
  the sampling of a negative number of values before anything is stored.
  \<open>simulate_card_draws\<close> and \<open>simulate_compound_events\<close> check nothing: for every
  integer count, negative or above 52, they return a result and store it.
\<close>

theorem invalid_trial_count:
  "(num < 0 \<longrightarrow>
      simulate_coin_tosses s num = Inl ValueError \<and>
      simulate_die_rolls s num = Inl ValueError) \<and>
   (\<exists>r s'. simulate_card_draws s num = Inr (r, s')) \<and>
   (\<exists>r s'. simulate_compound_events s num = Inr (r, s'))"
  using simulate_card_draws_returns [of s num] simulate_compound_events_returns [of s num]
  by (simp add: simulate_coin_tosses_def simulate_die_rolls_def randint_size_def)

theorem invalid_trial_count_witness:
  "simulate_coin_tosses (init id id) (- 1) = Inl ValueError \<and>
   simulate_die_rolls (init id id) (- 1) = Inl ValueError \<and>
   (\<exists>r s'. simulate_card_draws (init id id) (- 1) = Inr (r, s')) \<and>
   (\<exists>r s'. simulate_compound_events (init id id) (- 1) = Inr (r, s'))"
  using invalid_trial_count [of "- 1" "init id id"] by simp

text \<open>
  Claim C1 as first stated, that every invalid trial count is rejected, fails:
  with \<open>-1\<close> trials \<open>simulate_compound_events\<close> raises nothing and returns a result
  whose \<open>neither_head\<close> is \<open>-1\<close>.
\<close>

theorem negative_trials_not_rejected:
  "map_sum id fst (simulate_compound_events (init id id) (- 1)) =
     Inr (CompoundEvents 0 0 (- 1) [])"
  by (simp add: simulate_compound_events_def init_def Let_def)

section \<open>Presentation\<close>

text \<open>
  Claim C7. When nothing is stored for an experiment, its plot operation prints
  that no simulation has been run yet and returns; it raises no error.
\<close>

theorem plot_without_result:
  "(results s ''coin_tosses'' = None \<longrightarrow>
      plot_coin_tosses s = Inr (Printed ''No coin toss simulation has been run yet.'')) \<and>
   (results s ''die_rolls'' = None \<longrightarrow>
      plot_die_rolls s = Inr (Printed ''No die roll simulation has been run yet.'')) \<and>
   (results s ''card_draws'' = None \<longrightarrow>
      plot_card_draws s = Inr (Printed ''No card draw simulation has been run yet.'')) \<and>
   (results s ''compound_events'' = None \<longrightarrow>
      plot_compound_events s = Inr (Printed ''No compound event simulation has been run yet.''))"
  by (simp add: plot_coin_tosses_def plot_die_rolls_def plot_card_draws_def
      plot_compound_events_def)

theorem plot_without_result_witness:
  "results (init id id) ''coin_tosses'' = None \<and>
   results (init id id) ''die_rolls'' = None \<and>
   results (init id id) ''card_draws'' = None \<and>
   results (init id id) ''compound_events'' = None \<and>
   plot_coin_tosses (init id id) = Inr (Printed ''No coin toss simulation has been run yet.'') \<and>
   plot_die_rolls (init id id) = Inr (Printed ''No die roll simulation has been run yet.'') \<and>
   plot_card_draws (init id id) = Inr (Printed ''No card draw simulation has been run yet.'') \<and>
   plot_compound_events (init id id) =
     Inr (Printed ''No compound event simulation has been run yet.'')"
  using plot_without_result [of "init id id"] by (simp add: init_def)

text \<open>
  Claim C2 asks that a stored result with a zero total is presented with an
  explicit undefined probability. After a run with zero trials,
  \<open>plot_card_draws\<close> and \<open>plot_compound_events\<close> divide two Python ints by the zero
  total and raise \<open>ZeroDivisionError\<close>; \<open>plot_coin_tosses\<close> divides two numpy scalars
  by it and shows \<open>nan\<close>.
\<close>

theorem plot_after_zero_trials:
  "(\<exists>r s'. simulate_card_draws s 0 = Inr (r, s') \<and> plot_card_draws s' = Inl ZeroDivisionError) \<and>
   (\<exists>r s'. simulate_compound_events s 0 = Inr (r, s') \<and>
      plot_compound_events s' = Inl ZeroDivisionError) \<and>
   (\<exists>r s'. simulate_coin_tosses s 0 = Inr (r, s') \<and>
      plot_coin_tosses s' = Inr (Shown [[0, 0]] [NaN]))"
proof (intro conjI)
  show "\<exists>r s'. simulate_card_draws s 0 = Inr (r, s') \<and> plot_card_draws s' = Inl ZeroDivisionError"
    by (simp add: simulate_card_draws_def slice_to_def plot_card_draws_def py_truediv_def Let_def
        split: prod.splits)
  show "\<exists>r s'. simulate_compound_events s 0 = Inr (r, s') \<and>
      plot_compound_events s' = Inl ZeroDivisionError"
    by (simp add: simulate_compound_events_def plot_compound_events_def py_truediv_def Let_def)
  show "\<exists>r s'. simulate_coin_tosses s 0 = Inr (r, s') \<and>
      plot_coin_tosses s' = Inr (Shown [[0, 0]] [NaN])"
    by (simp add: simulate_coin_tosses_def randint_size_def plot_coin_tosses_def np_truediv_def
        Let_def)
qed

end
